theory Spec2Isabelle
  imports Complex_Main "HOL-Library.Word"
begin

section \<open>Python values and the text primitives the program relies on\<close>

text \<open>
  The repository is Python. The values that travel through the modelled functions are the
  JSON-shaped ones: \<open>None\<close>, booleans, integers, strings, lists and string-keyed
  dictionaries. A dictionary is an association list read with \<open>dict_get\<close>, which is
  \<open>d.get(k)\<close>: the value under the key, \<open>None\<close> when the key is missing.
  Floating-point and bytes values do not occur in \<open>pyval\<close>.

  A Python \<open>str\<close> is a sequence of code points. A \<open>string\<close> here is a list of
  8-bit characters, each read as the code point with that number, so the model covers
  the texts over code points 0 to 255; the character classes below are Python's on that
  range.
\<close>

datatype pyval =
    PNone
  | PBool bool
  | PInt int
  | PStr string
  | PList "pyval list"
  | PDict "(string \<times> pyval) list"

type_synonym pydict = "(string \<times> pyval) list"

datatype exn = ValueError | TypeError | RuntimeError | TimeoutError | AttributeError | OverflowError

text \<open>
  A raised exception: its class and its message. The message is \<open>Some\<close> text where the
  program itself builds it, and \<open>None\<close> where the interpreter or a library raises (those
  texts are not modelled).
\<close>

datatype pyerr = Raise exn "string option"

definition dict_get :: "pydict \<Rightarrow> string \<Rightarrow> pyval" where
  "dict_get d k = (case map_of d k of None \<Rightarrow> PNone | Some v \<Rightarrow> v)"

fun truthy :: "pyval \<Rightarrow> bool" where
  "truthy PNone = False"
| "truthy (PBool b) = b"
| "truthy (PInt n) = (n \<noteq> 0)"
| "truthy (PStr s) = (s \<noteq> [])"
| "truthy (PList xs) = (xs \<noteq> [])"
| "truthy (PDict d) = (d \<noteq> [])"

definition py_or :: "pyval \<Rightarrow> pyval \<Rightarrow> pyval" where
  "py_or a b = (if truthy a then a else b)"

definition code_of :: "char \<Rightarrow> int" where
  "code_of c = of_char c"

text \<open>\<open>str.isspace\<close>, which is also the class \<open>\s\<close> of \<open>re\<close> on \<open>str\<close>.\<close>

definition is_space :: "char \<Rightarrow> bool" where
  "is_space c = (let n = code_of c in
     (9 \<le> n \<and> n \<le> 13) \<or> (28 \<le> n \<and> n \<le> 32) \<or> n = 133 \<or> n = 160)"

text \<open>The class \<open>\w\<close> of \<open>re\<close> on \<open>str\<close>: alphanumeric or underscore.\<close>

definition is_word :: "char \<Rightarrow> bool" where
  "is_word c = (let n = code_of c in
     (48 \<le> n \<and> n \<le> 57) \<or> (65 \<le> n \<and> n \<le> 90) \<or> n = 95 \<or> (97 \<le> n \<and> n \<le> 122)
     \<or> n = 170 \<or> n = 178 \<or> n = 179 \<or> n = 181 \<or> n = 185 \<or> n = 186
     \<or> (188 \<le> n \<and> n \<le> 190) \<or> (192 \<le> n \<and> n \<le> 214)
     \<or> (216 \<le> n \<and> n \<le> 246) \<or> 248 \<le> n)"

text \<open>\<open>str.lower\<close> on one character.\<close>

definition lower_char :: "char \<Rightarrow> char" where
  "lower_char c = (let n = code_of c in
     if (65 \<le> n \<and> n \<le> 90) \<or> (192 \<le> n \<and> n \<le> 222 \<and> n \<noteq> 215)
     then char_of (n + 32) else c)"

definition lower :: "string \<Rightarrow> string" where
  "lower s = map lower_char s"

section \<open>Regular expressions of the selector\<close>

text \<open>
  The four patterns of \<open>choose_invoice_attachment\<close> use literal letters, \<open>\s*\<close>,
  \<open>\b\<close>, \<open>^\<close> and a top-level alternation, all under \<open>re.I\<close>. A pattern is a list
  of alternatives, each a list of atoms. \<open>match_here\<close> says whether a branch matches at
  the current position, given the previous character (\<open>None\<close> at the start of the text)
  and the rest of the text; \<open>search\<close> tries every position, as \<open>pat.search\<close> does, and
  is true when \<open>pat.search\<close> returns a match object.
\<close>

datatype rx_atom = Lit char | SpaceStar | WordB | Bol

type_synonym rx = "rx_atom list list"

definition word_opt :: "char option \<Rightarrow> bool" where
  "word_opt p = (case p of None \<Rightarrow> False | Some c \<Rightarrow> is_word c)"

definition at_boundary :: "char option \<Rightarrow> string \<Rightarrow> bool" where
  "at_boundary prev s = (word_opt prev \<noteq> word_opt (case s of [] \<Rightarrow> None | c # _ \<Rightarrow> Some c))"

fun match_here :: "rx_atom list \<Rightarrow> char option \<Rightarrow> string \<Rightarrow> bool" where
  "match_here [] prev s = True"
| "match_here (Lit c # r) prev [] = False"
| "match_here (Lit c # r) prev (x # xs) = (lower_char x = c \<and> match_here r (Some x) xs)"
| "match_here (SpaceStar # r) prev [] = match_here r prev []"
| "match_here (SpaceStar # r) prev (x # xs) =
     ((is_space x \<and> match_here (SpaceStar # r) (Some x) xs) \<or> match_here r prev (x # xs))"
| "match_here (WordB # r) prev s = (at_boundary prev s \<and> match_here r prev s)"
| "match_here (Bol # r) prev s = (prev = None \<and> match_here r prev s)"

definition match_alts :: "rx \<Rightarrow> char option \<Rightarrow> string \<Rightarrow> bool" where
  "match_alts p prev s = (\<exists>b \<in> set p. match_here b prev s)"

fun search_from :: "rx \<Rightarrow> char option \<Rightarrow> string \<Rightarrow> bool" where
  "search_from p prev [] = match_alts p prev []"
| "search_from p prev (x # xs) = (match_alts p prev (x # xs) \<or> search_from p (Some x) xs)"

definition search :: "rx \<Rightarrow> string \<Rightarrow> bool" where
  "search p s = search_from p None s"

definition lits :: "string \<Rightarrow> rx_atom list" where
  "lits s = map Lit s"

definition pat_commercial_invoice :: rx where
  "pat_commercial_invoice = [lits ''commercial'' @ [SpaceStar] @ lits ''invoice'']"

definition pat_invoice :: rx where
  "pat_invoice = [[WordB] @ lits ''invoice'' @ [WordB]]"

definition pat_proforma :: rx where
  "pat_proforma = [lits ''proforma'' @ [SpaceStar] @ lits ''invoice'',
                   [WordB] @ lits ''proforma'' @ [WordB]]"

definition pat_pi :: rx where
  "pat_pi = [[Bol] @ lits ''pi'' @ [WordB], [WordB] @ lits ''pi'' @ [WordB]]"

definition patterns :: "rx list" where
  "patterns = [pat_commercial_invoice, pat_invoice, pat_proforma, pat_pi]"

section \<open>The invoice-attachment selector\<close>

text \<open>
  \<open>scripts/e2e_from_gmail_latest.py\<close>, \<open>choose_invoice_attachment\<close>. The name of a
  candidate is \<open>a.get("filename") or a.get("title") or ""\<close>. \<open>pat.search\<close> raises
  \<open>TypeError\<close> when that value is not a \<open>str\<close>. \<open>scan\<close> is the inner loop over
  \<open>enumerate(atts, start=1)\<close> from position \<open>i\<close>; \<open>try_patterns\<close> is the outer loop
  over the patterns.
\<close>

definition candidate_name :: "pydict \<Rightarrow> pyval" where
  "candidate_name a = py_or (py_or (dict_get a ''filename'') (dict_get a ''title'')) (PStr [])"

definition pat_matches :: "rx \<Rightarrow> pydict \<Rightarrow> pyerr + bool" where
  "pat_matches pat a = (case candidate_name a of
       PStr fn \<Rightarrow> Inr (search pat fn)
     | _ \<Rightarrow> Inl (Raise TypeError None))"

fun scan :: "rx \<Rightarrow> nat \<Rightarrow> pydict list \<Rightarrow> pyerr + (nat \<times> pydict) option" where
  "scan pat i [] = Inr None"
| "scan pat i (a # as) = (case pat_matches pat a of
       Inl e \<Rightarrow> Inl e
     | Inr True \<Rightarrow> Inr (Some (i, a))
     | Inr False \<Rightarrow> scan pat (Suc i) as)"

fun try_patterns :: "rx list \<Rightarrow> pydict list \<Rightarrow> pyerr + (nat \<times> pydict) option" where
  "try_patterns [] atts = Inr None"
| "try_patterns (pat # pats) atts = (case scan pat 1 atts of
       Inl e \<Rightarrow> Inl e
     | Inr (Some r) \<Rightarrow> Inr (Some r)
     | Inr None \<Rightarrow> try_patterns pats atts)"

definition choose_invoice_attachment :: "pydict list \<Rightarrow> pyerr + (nat \<times> pydict) option" where
  "choose_invoice_attachment atts = (case try_patterns patterns atts of
       Inl e \<Rightarrow> Inl e
     | Inr (Some r) \<Rightarrow> Inr (Some r)
     | Inr None \<Rightarrow> (case atts of [] \<Rightarrow> Inr None | a # _ \<Rightarrow> Inr (Some (1, a))))"

text \<open>
  The character before the current position after reading \<open>u\<close>: what \<open>match_here\<close>
  carries along for \<open>\b\<close> and \<open>^\<close>.
\<close>

definition prev_after :: "char option \<Rightarrow> string \<Rightarrow> char option" where
  "prev_after prev u = (if u = [] then prev else Some (last u))"

text \<open>
  The first pattern in the words of the specification: somewhere in the text stands
  "commercial", then any run of whitespace (possibly none), then "invoice", in any
  mixture of upper and lower case.
\<close>

definition has_commercial_invoice :: "string \<Rightarrow> bool" where
  "has_commercial_invoice s =
     (\<exists>x u ws v y. s = x @ u @ ws @ v @ y \<and> lower u = ''commercial''
        \<and> (\<forall>c \<in> set ws. is_space c) \<and> lower v = ''invoice'')"

text \<open>A candidate whose name (file name, else title, else the empty text) is a \<open>str\<close>.\<close>

definition str_named :: "pydict \<Rightarrow> bool" where
  "str_named a = (case candidate_name a of PStr _ \<Rightarrow> True | _ \<Rightarrow> False)"

section \<open>Text and number primitives\<close>

text \<open>
  \<open>str.strip\<close>, \<open>str.split\<close> (no argument: split at runs of whitespace),
  \<open>str.startswith\<close>, \<open>str.replace\<close>, \<open>str(int)\<close>, \<open>repr\<close> and \<open>str\<close> on
  \<open>pyval\<close>, and \<open>int(x)\<close>. \<open>int\<close> of a string strips whitespace (the blanks
  \<open>int\<close> accepts: 9 to 13, 32, 133, 160), takes an optional sign and then decimal
  digits with single underscores between digits; anything else is a \<open>ValueError\<close>, and
  \<open>int\<close> of \<open>None\<close>, a list or a dictionary is a \<open>TypeError\<close>. The interpreter's limit
  on the number of digits of a converted string is a setting of the interpreter and is
  not modelled.
\<close>

definition strip :: "string \<Rightarrow> string" where
  "strip s = rev (dropWhile is_space (rev (dropWhile is_space s)))"

fun split_from :: "string \<Rightarrow> string \<Rightarrow> string list" where
  "split_from cur [] = (if cur = [] then [] else [cur])"
| "split_from cur (c # cs) =
     (if is_space c then (if cur = [] then split_from [] cs else cur # split_from [] cs)
      else split_from (cur @ [c]) cs)"

definition split :: "string \<Rightarrow> string list" where
  "split s = split_from [] s"

definition startswith :: "string \<Rightarrow> string \<Rightarrow> bool" where
  "startswith s p = (take (length p) s = p)"

function replace_str :: "string \<Rightarrow> string \<Rightarrow> string \<Rightarrow> string" where
  "replace_str old new s =
     (if old = [] then s
      else if s = [] then []
      else if startswith s old then new @ replace_str old new (drop (length old) s)
      else hd s # replace_str old new (tl s))"
  by pat_completeness auto
termination
  by (relation "measure (\<lambda>(old, new, s). length s)") auto

definition digit_char :: "int \<Rightarrow> char" where
  "digit_char d = char_of (48 + d)"

function digits_of :: "int \<Rightarrow> string" where
  "digits_of n = (if n < 10 then [digit_char n] else digits_of (n div 10) @ [digit_char (n mod 10)])"
  by pat_completeness auto
termination
  by (relation "measure nat") auto

definition str_int :: "int \<Rightarrow> string" where
  "str_int i = (if i < 0 then CHR ''-'' # digits_of (- i) else digits_of i)"

definition zero_pad :: "nat \<Rightarrow> int \<Rightarrow> string" where
  "zero_pad w n = (let ds = digits_of n in replicate (w - length ds) CHR ''0'' @ ds)"

definition hex_char :: "int \<Rightarrow> char" where
  "hex_char d = (if d < 10 then char_of (48 + d) else char_of (87 + d))"

definition printable :: "char \<Rightarrow> bool" where
  "printable c = (let n = code_of c in 32 \<le> n \<and> n \<noteq> 127 \<and> \<not> (128 \<le> n \<and> n \<le> 160) \<and> n \<noteq> 173)"

definition repr_char :: "char \<Rightarrow> char \<Rightarrow> string" where
  "repr_char q c =
     (if c = q \<or> c = CHR 0x5C then [CHR 0x5C, c]
      else if c = CHR 0x09 then [CHR 0x5C, CHR ''t'']
      else if c = CHR 0x0A then [CHR 0x5C, CHR ''n'']
      else if c = CHR 0x0D then [CHR 0x5C, CHR ''r'']
      else if printable c then [c]
      else [CHR 0x5C, CHR ''x'', hex_char (code_of c div 16), hex_char (code_of c mod 16)])"

definition repr_str :: "string \<Rightarrow> string" where
  "repr_str s =
     (let q = (if CHR 0x27 \<in> set s \<and> CHR 0x22 \<notin> set s then CHR 0x22 else CHR 0x27)
      in q # concat (map (repr_char q) s) @ [q])"

fun join :: "string \<Rightarrow> string list \<Rightarrow> string" where
  "join sep [] = []"
| "join sep [x] = x"
| "join sep (x # y # ys) = x @ sep @ join sep (y # ys)"

fun py_repr :: "pyval \<Rightarrow> string" where
  "py_repr PNone = ''None''"
| "py_repr (PBool b) = (if b then ''True'' else ''False'')"
| "py_repr (PInt n) = str_int n"
| "py_repr (PStr s) = repr_str s"
| "py_repr (PList xs) = ''['' @ join '', '' (map py_repr xs) @ '']''"
| "py_repr (PDict d) = ''{'' @ join '', '' (map (\<lambda>kv. repr_str (fst kv) @ '': '' @ py_repr (snd kv)) d) @ ''}''"

definition py_str :: "pyval \<Rightarrow> string" where
  "py_str v = (case v of PStr s \<Rightarrow> s | _ \<Rightarrow> py_repr v)"

definition is_digit :: "char \<Rightarrow> bool" where
  "is_digit c = (48 \<le> code_of c \<and> code_of c \<le> 57)"

definition digit_val :: "char \<Rightarrow> int" where
  "digit_val c = code_of c - 48"

fun digits_rest :: "int \<Rightarrow> string \<Rightarrow> int option" where
  "digits_rest acc [] = Some acc"
| "digits_rest acc [c] = (if is_digit c then Some (acc * 10 + digit_val c) else None)"
| "digits_rest acc (c # d # cs) =
     (if is_digit c then digits_rest (acc * 10 + digit_val c) (d # cs)
      else if c = CHR ''_'' \<and> is_digit d then digits_rest (acc * 10 + digit_val d) cs
      else None)"

definition parse_digits :: "string \<Rightarrow> int option" where
  "parse_digits s = (case s of [] \<Rightarrow> None
     | c # cs \<Rightarrow> if is_digit c then digits_rest (digit_val c) cs else None)"

definition int_space :: "char \<Rightarrow> bool" where
  "int_space c = (let n = code_of c in (9 \<le> n \<and> n \<le> 13) \<or> n = 32 \<or> n = 133 \<or> n = 160)"

definition parse_int :: "string \<Rightarrow> int option" where
  "parse_int s =
     (let t = rev (dropWhile int_space (rev (dropWhile int_space s)))
      in case t of
           [] \<Rightarrow> None
         | c # cs \<Rightarrow>
             if c = CHR ''-'' then map_option uminus (parse_digits cs)
             else if c = CHR ''+'' then parse_digits cs
             else parse_digits t)"

definition py_int :: "pyval \<Rightarrow> pyerr + int" where
  "py_int v = (case v of
       PInt n \<Rightarrow> Inr n
     | PBool b \<Rightarrow> Inr (if b then 1 else 0)
     | PStr s \<Rightarrow> (case parse_int s of None \<Rightarrow> Inl (Raise ValueError None) | Some n \<Rightarrow> Inr n)
     | _ \<Rightarrow> Inl (Raise TypeError None))"

section \<open>Timestamps\<close>

text \<open>
  \<open>_ms_to_iso8601\<close> divides by \<open>1000.0\<close> in binary64 floating point and hands the
  quotient to \<open>datetime.fromtimestamp(..., tz=timezone.utc)\<close>. Floating-point values
  are the rationals they denote; \<open>rn64\<close> rounds a rational to the nearest binary64
  value, ties to even (exact for normal numbers, which is all that occurs here: a
  quotient of a non-zero integer by 1000 is at least one thousandth in magnitude).
  \<open>float_of_int\<close> is the conversion of the integer operand, which raises
  \<open>OverflowError\<close> when the rounded value reaches 2 to the power 1024. \<open>timeval_of_float\<close> splits a float
  into whole seconds and microseconds the way \<open>fromtimestamp\<close> does: truncate, scale
  the fraction by \<open>1e6\<close>, round half to even, and carry. \<open>civil_from_days\<close> is the
  proleptic Gregorian date of a day number counted from 1970-01-01. A timestamp outside
  years 1 to 9999 makes \<open>fromtimestamp\<close> raise (the class of the exception depends on
  the magnitude; the caller catches every \<open>Exception\<close>).
\<close>

function bit_length :: "int \<Rightarrow> int" where
  "bit_length n = (if n \<le> 0 then 0 else 1 + bit_length (n div 2))"
  by pat_completeness auto
termination
  by (relation "measure nat") auto

definition pow2 :: "int \<Rightarrow> rat" where
  "pow2 e = (if 0 \<le> e then 2 ^ nat e else 1 / 2 ^ nat (- e))"

definition round_half_even :: "rat \<Rightarrow> int" where
  "round_half_even x = (let f = \<lfloor>x\<rfloor>; r = x - of_int f in
     if r < 1 / 2 then f else if 1 / 2 < r then f + 1 else if even f then f else f + 1)"

definition ilog2 :: "rat \<Rightarrow> int" where
  "ilog2 x = (let (n, d) = quotient_of \<bar>x\<bar>;
                  e0 = bit_length n - bit_length d
              in if pow2 e0 \<le> \<bar>x\<bar> then e0 else e0 - 1)"

definition rn64 :: "rat \<Rightarrow> rat" where
  "rn64 x = (if x = 0 then 0 else
     let u = pow2 (ilog2 x - 52) in of_int (round_half_even (x / u)) * u)"

definition float_of_int :: "int \<Rightarrow> pyerr + rat" where
  "float_of_int n = (let d = rn64 (of_int n) in
     if 1024 \<le> ilog2 d then Inl (Raise OverflowError None) else Inr d)"

definition trunc :: "rat \<Rightarrow> int" where
  "trunc x = (if 0 \<le> x then \<lfloor>x\<rfloor> else - \<lfloor>- x\<rfloor>)"

definition timeval_of_float :: "rat \<Rightarrow> int \<times> int" where
  "timeval_of_float d =
     (let ip = trunc d;
          us = round_half_even (rn64 ((d - of_int ip) * 1000000))
      in if 1000000 \<le> us then (ip + 1, us - 1000000)
         else if us < 0 then (ip - 1, us + 1000000)
         else (ip, us))"

record datetime =
  year :: int
  month :: int
  day :: int
  hour :: int
  minute :: int
  second :: int
  microsecond :: int

definition civil_from_days :: "int \<Rightarrow> int \<times> int \<times> int" where
  "civil_from_days z0 =
     (let z = z0 + 719468;
          era = z div 146097;
          doe = z mod 146097;
          yoe = (doe - doe div 1460 + doe div 36524 - doe div 146096) div 365;
          doy = doe - (365 * yoe + yoe div 4 - yoe div 100);
          mp = (5 * doy + 2) div 153;
          d = doy - (153 * mp + 2) div 5 + 1;
          m = (if mp < 10 then mp + 3 else mp - 9);
          y = yoe + era * 400
      in (if m \<le> 2 then y + 1 else y, m, d))"

definition utcfromtimestamp :: "rat \<Rightarrow> pyerr + datetime" where
  "utcfromtimestamp t =
     (let (secs, us) = timeval_of_float t;
          (y, m, d) = civil_from_days (secs div 86400);
          r = secs mod 86400
      in if y < 1 \<or> 9999 < y then Inl (Raise ValueError None)
         else Inr \<lparr>year = y, month = m, day = d, hour = r div 3600,
                    minute = r mod 3600 div 60, second = r mod 60, microsecond = us\<rparr>)"

definition isoformat :: "datetime \<Rightarrow> string" where
  "isoformat dt =
     zero_pad 4 (year dt) @ ''-'' @ zero_pad 2 (month dt) @ ''-'' @ zero_pad 2 (day dt)
     @ ''T'' @ zero_pad 2 (hour dt) @ '':'' @ zero_pad 2 (minute dt) @ '':'' @ zero_pad 2 (second dt)
     @ (if microsecond dt = 0 then [] else ''.'' @ zero_pad 6 (microsecond dt))
     @ ''+00:00''"

text \<open>
  \<open>src/gmail_invoices.py\<close>, \<open>_ms_to_iso8601\<close>: every step that can raise sits inside
  \<open>try\<close>, and \<open>except Exception\<close> returns the empty string.
\<close>

definition ms_to_iso8601 :: "pyval \<Rightarrow> string" where
  "ms_to_iso8601 ms =
     (case py_int ms of
        Inl e \<Rightarrow> []
      | Inr ms_int \<Rightarrow>
          (case float_of_int ms_int of
             Inl e \<Rightarrow> []
           | Inr f \<Rightarrow>
               (case utcfromtimestamp (rn64 (f / 1000)) of
                  Inl e \<Rightarrow> []
                | Inr dt \<Rightarrow> replace_str ''+00:00'' ''Z'' (isoformat dt))))"

section \<open>The Gmail invoices wrapper\<close>

text \<open>
  \<open>src/gmail_invoices.py\<close>. The environment is a map from variable names to values.
  The collaborators the module calls (the Gmail listing and download helpers, the file
  system, \<open>requests.post\<close>) are parameters of the functions that call them.
\<close>

definition require_env :: "(string \<rightharpoonup> string) \<Rightarrow> string \<Rightarrow> pyerr + string" where
  "require_env env name = (case env name of
       None \<Rightarrow> Inl (Raise RuntimeError (Some (''Missing required environment variable: '' @ name)))
     | Some val \<Rightarrow>
         if val = [] then Inl (Raise RuntimeError (Some (''Missing required environment variable: '' @ name)))
         else Inr val)"

text \<open>\<open>_append_lookback_to_query\<close>, for a \<open>str\<close> query and an \<open>int\<close> lookback.\<close>

definition append_lookback_to_query :: "string \<Rightarrow> int \<Rightarrow> string" where
  "append_lookback_to_query query lookback_days =
     (let q = strip query;
          tokens = split (lower q);
          has_attachment = list_ex (\<lambda>t. startswith t ''has:attachment'') tokens;
          has_newer_than = list_ex (\<lambda>t. startswith t ''newer_than:'') tokens;
          q1 = (if \<not> has_attachment then strip (q @ '' has:attachment'') else q);
          q2 = (if lookback_days \<noteq> 0 \<and> lookback_days > 0 \<and> \<not> has_newer_than
                then strip (q1 @ '' newer_than:'' @ str_int lookback_days @ ''d'') else q1)
      in q2)"

record AttachmentRef =
  message_id :: string
  attachment_id :: string
  filename :: string
  mime_type :: string
  size_bytes :: int
  thread_id :: string
  subject :: string
  from_address :: string
  received_at :: string

text \<open>
  \<open>x.get(k)\<close> on an arbitrary value (\<open>AttributeError\<close> unless \<open>x\<close> is a dictionary) and
  iteration over an arbitrary value (\<open>TypeError\<close> for \<open>None\<close>, booleans and integers; a
  string yields its characters, a dictionary its keys).
\<close>

definition py_get :: "pyval \<Rightarrow> string \<Rightarrow> pyerr + pyval" where
  "py_get v k = (case v of PDict d \<Rightarrow> Inr (dict_get d k) | _ \<Rightarrow> Inl (Raise AttributeError None))"

definition py_iter :: "pyval \<Rightarrow> pyerr + pyval list" where
  "py_iter v = (case v of
       PList xs \<Rightarrow> Inr xs
     | PStr s \<Rightarrow> Inr (map (\<lambda>c. PStr [c]) s)
     | PDict d \<Rightarrow> Inr (map (\<lambda>kv. PStr (fst kv)) d)
     | _ \<Rightarrow> Inl (Raise TypeError None))"

text \<open>
  \<open>list_invoice_attachments\<close>, lines 114 to 136. \<open>attachment_ref\<close> is the dictionary
  literal appended for one attachment \<open>a\<close> of a message; its entries are evaluated in
  order, so \<open>a.get\<close> fails first when \<open>a\<close> is not a dictionary and
  \<open>int(a.get("size") or 0)\<close> may fail afterwards. \<open>attachment_refs\<close> is the inner loop,
  \<open>message_refs\<close> the body of the outer loop, \<open>normalize_messages\<close> the outer loop.
\<close>

definition attachment_ref :: "string \<Rightarrow> string \<Rightarrow> string \<Rightarrow> pyval \<Rightarrow> pyerr + AttachmentRef" where
  "attachment_ref mid subj rcv a = (case a of
       PDict d \<Rightarrow>
         (case py_int (py_or (dict_get d ''size'') (PInt 0)) of
            Inl e \<Rightarrow> Inl e
          | Inr n \<Rightarrow> Inr \<lparr>message_id = mid,
                          attachment_id = py_str (py_or (dict_get d ''attachmentId'') (PStr [])),
                          filename = py_str (py_or (dict_get d ''filename'') (PStr [])),
                          mime_type = py_str (py_or (dict_get d ''mimeType'') (PStr [])),
                          size_bytes = n,
                          thread_id = [],
                          subject = subj,
                          from_address = [],
                          received_at = rcv\<rparr>)
     | _ \<Rightarrow> Inl (Raise AttributeError None))"

fun attachment_refs :: "string \<Rightarrow> string \<Rightarrow> string \<Rightarrow> pyval list \<Rightarrow> pyerr + AttachmentRef list" where
  "attachment_refs mid subj rcv [] = Inr []"
| "attachment_refs mid subj rcv (a # as) = (case attachment_ref mid subj rcv a of
       Inl e \<Rightarrow> Inl e
     | Inr r \<Rightarrow> (case attachment_refs mid subj rcv as of Inl e \<Rightarrow> Inl e | Inr rs \<Rightarrow> Inr (r # rs)))"

definition message_refs :: "pyval \<Rightarrow> pyerr + AttachmentRef list" where
  "message_refs m = (case m of
       PDict d \<Rightarrow>
         (let mid = py_str (py_or (dict_get d ''messageId'') (PStr []));
              subj = py_str (py_or (dict_get d ''subject'') (PStr []));
              rcv = ms_to_iso8601 (dict_get d ''internalDate'')
          in case py_iter (py_or (dict_get d ''attachments'') (PList [])) of
               Inl e \<Rightarrow> Inl e
             | Inr as \<Rightarrow> attachment_refs mid subj rcv as)
     | _ \<Rightarrow> Inl (Raise AttributeError None))"

fun normalize_messages :: "pyval list \<Rightarrow> pyerr + AttachmentRef list" where
  "normalize_messages [] = Inr []"
| "normalize_messages (m # ms) = (case message_refs m of
       Inl e \<Rightarrow> Inl e
     | Inr rs \<Rightarrow> (case normalize_messages ms of Inl e \<Rightarrow> Inl e | Inr out \<Rightarrow> Inr (rs @ out)))"

text \<open>
  The listing helper \<open>_gmail_list_messages_with_attachments_impl\<close> is not part of the
  sources at hand; it is the parameter \<open>list_impl\<close>, called with the token, the
  augmented query, \<open>max_results=50\<close> and \<open>mime_types=None\<close>.
\<close>

definition list_invoice_attachments ::
  "(string \<rightharpoonup> string) \<Rightarrow> (string \<Rightarrow> string \<Rightarrow> int \<Rightarrow> pyval \<Rightarrow> pyerr + pyval)
     \<Rightarrow> string \<Rightarrow> int \<Rightarrow> pyerr + AttachmentRef list" where
  "list_invoice_attachments env list_impl query lookback_days =
     (case require_env env ''GMAIL_AUTHORIZATION'' of
        Inl e \<Rightarrow> Inl e
      | Inr token \<Rightarrow>
          (let q = append_lookback_to_query query lookback_days
           in case list_impl token q 50 PNone of
                Inl e \<Rightarrow> Inl e
              | Inr msgs \<Rightarrow>
                  (case py_iter msgs of Inl e \<Rightarrow> Inl e | Inr ms \<Rightarrow> normalize_messages ms)))"

text \<open>
  Calls that leave the process, in the order they are made. A function that makes such
  calls returns its result together with this trace.
\<close>

type_synonym bytes = "8 word list"

record http_request =
  url :: string
  headers :: "(string \<times> string) list"
  file_field :: string
  file_name :: string
  file_body :: bytes
  file_type :: string
  timeout :: int

datatype event =
    EnvLookup string
  | DownloadCall string string pyval
  | FileRead string
  | FileRemove string
  | HttpPost http_request

text \<open>
  \<open>download_attachment\<close>. \<open>gmail_download\<close> is the helper
  \<open>gmail_download_attachment(message_id, attachment_id, filename=...)\<close>, returning the
  saved path or raising; \<open>read_file\<close> is \<open>open(path, "rb").read()\<close>, returning the
  bytes or the text of the exception raised. The \<open>finally\<close> block removes the file in
  both cases and ignores a failure to do so.
\<close>

definition missing_ids_message :: string where
  "missing_ids_message =
     ''AttachmentRef must include '' @ [CHR 0x27] @ ''message_id'' @ [CHR 0x27]
     @ '' and '' @ [CHR 0x27] @ ''attachment_id'' @ [CHR 0x27]"

definition download_attachment ::
  "(string \<Rightarrow> string \<Rightarrow> pyval \<Rightarrow> pyerr + string) \<Rightarrow> (string \<Rightarrow> string + bytes)
     \<Rightarrow> pyval \<Rightarrow> (pyerr + bytes) \<times> event list" where
  "download_attachment gmail_download read_file ref = (case ref of
       PDict d \<Rightarrow>
         (let message_id = py_or (dict_get d ''message_id'') (dict_get d ''messageId'');
              attachment_id = py_or (dict_get d ''attachment_id'') (dict_get d ''attachmentId'')
          in if \<not> truthy message_id \<or> \<not> truthy attachment_id
             then (Inl (Raise ValueError (Some missing_ids_message)), [])
             else
               (let preferred_name = py_or (dict_get d ''filename'') (PStr (''gmail_'' @ py_str attachment_id));
                    call = DownloadCall (py_str message_id) (py_str attachment_id) preferred_name
                in case gmail_download (py_str message_id) (py_str attachment_id) preferred_name of
                     Inl e \<Rightarrow> (Inl e, [call])
                   | Inr path \<Rightarrow>
                       (case read_file path of
                          Inl msg \<Rightarrow>
                            (Inl (Raise RuntimeError
                                   (Some (''Failed to read downloaded attachment from '' @ path @ '': '' @ msg))),
                             [call, FileRead path, FileRemove path])
                        | Inr data \<Rightarrow> (Inr data, [call, FileRead path, FileRemove path]))))
     | _ \<Rightarrow> (Inl (Raise ValueError (Some ''ref must be a dict AttachmentRef'')), []))"


text \<open>
  \<open>upload_pdf_to_planner\<close>. The argument is \<open>Bytes bs\<close> for a \<open>bytes\<close> or
  \<open>bytearray\<close> value and \<open>NotBytes\<close> for anything else. \<open>post\<close> is
  \<open>requests.post\<close>: it times out, fails otherwise (with the text of the exception), or
  returns a response. A response has a status code, a body text \<open>resp.text\<close> (\<open>None\<close> allowed, as the
  code guards with \<open>or ""\<close>) and a \<open>json\<close> attribute that may be missing, may raise,
  or returns a value. The report's field \<open>notes\<close> is \<open>report_notes\<close> here and the
  response's \<open>text\<close> is \<open>resp_text\<close> (both names are reserved words of Isabelle).
\<close>

datatype payload = Bytes bytes | NotBytes

datatype json_attr = NoJsonAttr | JsonRaises | JsonReturns pyval

record response =
  status_code :: int
  resp_text :: "string option"
  json :: json_attr

datatype post_outcome = PostTimeout | PostFailure string | PostResponse response

record InsertReport =
  created_order_ids :: pyval
  warnings :: pyval
  errors :: pyval
  source_message_id :: pyval
  report_notes :: pyval

definition pdf_magic :: bytes where
  "pdf_magic = [0x25, 0x50, 0x44, 0x46]"

text \<open>
  Lines 206 to 211: the header test raises \<open>ValueError\<close> inside a \<open>try\<close> whose
  \<open>except Exception: pass\<close> catches it. \<open>pdf_header_check\<close> is the body of the
  \<open>try\<close>; \<open>except_pass\<close> is the handler: whatever the body did, execution goes on.
\<close>

definition pdf_header_check :: "bytes \<Rightarrow> pyerr + unit" where
  "pdf_header_check bs =
     (if \<not> (take (length pdf_magic) (take 4 bs) = pdf_magic)
      then Inl (Raise ValueError (Some ''Only application/pdf content can be uploaded''))
      else Inr ())"

definition except_pass :: "pyerr + unit \<Rightarrow> unit" where
  "except_pass r = (case r of Inl e \<Rightarrow> () | Inr u \<Rightarrow> u)"

definition rstrip_slash :: "string \<Rightarrow> string" where
  "rstrip_slash s = rev (dropWhile (\<lambda>c. c = CHR ''/'') (rev s))"

definition is_str :: "pyval \<Rightarrow> bool" where
  "is_str v = (case v of PStr _ \<Rightarrow> True | _ \<Rightarrow> False)"

text \<open>Lines 239 to 262: the response data adapted to an \<open>InsertReport\<close>.\<close>

definition adapt_report :: "pyval \<Rightarrow> pyval \<Rightarrow> pyerr + InsertReport" where
  "adapt_report data smid = (case data of
       PDict d \<Rightarrow>
         (let created = dict_get d ''created_order_ids'';
              created = (if created = PNone then dict_get d ''created'' else created);
              created = (if created = PNone then PList [] else created);
              warnings = py_or (dict_get d ''warnings'') (PList []);
              warnings = (if is_str warnings then PList [warnings] else warnings);
              errors = py_or (dict_get d ''errors'') (PList []);
              errors = (if is_str errors then PList [errors] else errors);
              note = py_or (py_or (dict_get d ''notes'') (dict_get d ''detail'')) (PStr [])
          in Inr \<lparr>created_order_ids = created, warnings = warnings, errors = errors,
                   source_message_id = py_or smid (PStr []), report_notes = note\<rparr>)
     | _ \<Rightarrow> Inl (Raise AttributeError None))"

definition planner_request :: "string \<Rightarrow> string \<Rightarrow> bytes \<Rightarrow> http_request" where
  "planner_request base api_key bs =
     \<lparr>url = base @ ''/orders/pending/upload-pdf'',
      headers = (if api_key \<noteq> [] then [(''Authorization'', ''Bearer '' @ api_key)] else []),
      file_field = ''file'', file_name = ''invoice.pdf'', file_body = bs,
      file_type = ''application/pdf'', timeout = 30\<rparr>"

definition upload_pdf_to_planner ::
  "(string \<rightharpoonup> string) \<Rightarrow> (http_request \<Rightarrow> post_outcome) \<Rightarrow> payload \<Rightarrow> pyval
     \<Rightarrow> (pyerr + InsertReport) \<times> event list" where
  "upload_pdf_to_planner env post pdf_bytes smid = (case pdf_bytes of
       NotBytes \<Rightarrow> (Inl (Raise ValueError (Some ''pdf_bytes must be non-empty bytes'')), [])
     | Bytes bs \<Rightarrow>
         if length bs = 0 then (Inl (Raise ValueError (Some ''pdf_bytes must be non-empty bytes'')), [])
         else
           (let u = except_pass (pdf_header_check bs)
            in case require_env env ''PLANNER_API_BASE'' of
                 Inl e \<Rightarrow> (Inl e, [EnvLookup ''PLANNER_API_BASE''])
               | Inr val \<Rightarrow>
                   (let base = rstrip_slash val;
                        api_key = (case env ''PLANNER_API_KEY'' of None \<Rightarrow> [] | Some k \<Rightarrow> k);
                        req = planner_request base api_key bs;
                        trace = [EnvLookup ''PLANNER_API_BASE'', EnvLookup ''PLANNER_API_KEY'', HttpPost req]
                    in case post req of
                         PostTimeout \<Rightarrow>
                           (Inl (Raise TimeoutError (Some ''Upload to planning app timed out after 30s'')), trace)
                       | PostFailure msg \<Rightarrow>
                           (Inl (Raise RuntimeError (Some (''Failed to upload PDF to planner: '' @ msg))), trace)
                       | PostResponse resp \<Rightarrow>
                           if status_code resp < 200 \<or> status_code resp \<ge> 300
                           then (Inl (Raise RuntimeError
                                   (Some (''Planner upload failed: HTTP '' @ str_int (status_code resp) @ '': ''
                                          @ take 200 (case resp_text resp of None \<Rightarrow> [] | Some t \<Rightarrow> t)))), trace)
                           else
                             (let data = (case json resp of
                                            NoJsonAttr \<Rightarrow> PDict []
                                          | JsonRaises \<Rightarrow> PDict []
                                          | JsonReturns v \<Rightarrow> v)
                              in (adapt_report data smid, trace)))))"



text \<open>
  The mapping of \<open>warnings\<close> and \<open>errors\<close> in the words of the specification, with
  the one change the code forces: a value that is absent, \<open>None\<close> or otherwise empty
  gives the empty list, a non-empty string gives the one-element list, anything else is
  used as it is.
\<close>

definition is_list :: "pyval \<Rightarrow> bool" where
  "is_list v = (case v of PList _ \<Rightarrow> True | _ \<Rightarrow> False)"

definition normalized_seq :: "pyval \<Rightarrow> pyval" where
  "normalized_seq v = (if \<not> truthy v then PList [] else case v of PStr s \<Rightarrow> PList [PStr s] | _ \<Rightarrow> v)"

section \<open>Properties of the selector\<close>

lemma prev_after_Nil [simp]: "prev_after prev [] = prev"
  by (simp add: prev_after_def)

lemma prev_after_Cons [simp]: "prev_after prev (x # u) = prev_after (Some x) u"
  by (simp add: prev_after_def)

lemma match_here_lits:
  "match_here (lits w @ r) prev s =
     (\<exists>u rest. s = u @ rest \<and> lower u = w \<and> match_here r (prev_after prev u) rest)"
proof (induction w arbitrary: prev s)
  case Nil
  show ?case by (auto simp: lits_def lower_def)
next
  case (Cons c w)
  show ?case
  proof (cases s)
    case Nil
    then show ?thesis by (simp add: lits_def lower_def)
  next
    case (Cons x xs)
    have "match_here (lits (c # w) @ r) prev s = (lower_char x = c \<and> match_here (lits w @ r) (Some x) xs)"
      using Cons by (simp add: lits_def)
    also have "\<dots> = (lower_char x = c \<and> (\<exists>u rest. xs = u @ rest \<and> lower u = w \<and> match_here r (prev_after (Some x) u) rest))"
      using Cons.IH by simp
    also have "\<dots> = (\<exists>u rest. s = u @ rest \<and> lower u = c # w \<and> match_here r (prev_after prev u) rest)"
    proof
      assume "lower_char x = c \<and> (\<exists>u rest. xs = u @ rest \<and> lower u = w \<and> match_here r (prev_after (Some x) u) rest)"
      then obtain u rest where "lower_char x = c" "xs = u @ rest" "lower u = w" "match_here r (prev_after (Some x) u) rest"
        by blast
      then have "s = (x # u) @ rest \<and> lower (x # u) = c # w \<and> match_here r (prev_after prev (x # u)) rest"
        using Cons by (simp add: lower_def)
      then show "\<exists>u rest. s = u @ rest \<and> lower u = c # w \<and> match_here r (prev_after prev u) rest"
        by blast
    next
      assume "\<exists>u rest. s = u @ rest \<and> lower u = c # w \<and> match_here r (prev_after prev u) rest"
      then obtain u rest where h: "s = u @ rest" "lower u = c # w" "match_here r (prev_after prev u) rest"
        by blast
      then obtain y u' where u: "u = y # u'" by (cases u) (auto simp: lower_def)
      with h Cons have "y = x" "xs = u' @ rest" "lower_char x = c" "lower u' = w" "match_here r (prev_after (Some x) u') rest"
        by (auto simp: lower_def)
      then show "lower_char x = c \<and> (\<exists>u rest. xs = u @ rest \<and> lower u = w \<and> match_here r (prev_after (Some x) u) rest)"
        by blast
    qed
    finally show ?thesis .
  qed
qed

lemma match_here_space_star:
  "match_here (SpaceStar # r) prev s =
     (\<exists>ws rest. s = ws @ rest \<and> (\<forall>c \<in> set ws. is_space c) \<and> match_here r (prev_after prev ws) rest)"
proof (induction s arbitrary: prev)
  case Nil
  show ?case by simp
next
  case (Cons x xs)
  show ?case
  proof
    assume "match_here (SpaceStar # r) prev (x # xs)"
    then consider "is_space x" "match_here (SpaceStar # r) (Some x) xs" | "match_here r prev (x # xs)"
      by auto
    then show "\<exists>ws rest. x # xs = ws @ rest \<and> (\<forall>c \<in> set ws. is_space c) \<and> match_here r (prev_after prev ws) rest"
    proof cases
      case 1
      then obtain ws rest where "xs = ws @ rest" "\<forall>c \<in> set ws. is_space c" "match_here r (prev_after (Some x) ws) rest"
        using Cons.IH by blast
      with 1 have "x # xs = (x # ws) @ rest \<and> (\<forall>c \<in> set (x # ws). is_space c) \<and> match_here r (prev_after prev (x # ws)) rest"
        by simp
      then show ?thesis by blast
    next
      case 2
      then have "x # xs = [] @ (x # xs) \<and> (\<forall>c \<in> set []. is_space c) \<and> match_here r (prev_after prev []) (x # xs)"
        by simp
      then show ?thesis by blast
    qed
  next
    assume "\<exists>ws rest. x # xs = ws @ rest \<and> (\<forall>c \<in> set ws. is_space c) \<and> match_here r (prev_after prev ws) rest"
    then obtain ws rest where h: "x # xs = ws @ rest" "\<forall>c \<in> set ws. is_space c" "match_here r (prev_after prev ws) rest"
      by blast
    show "match_here (SpaceStar # r) prev (x # xs)"
    proof (cases ws)
      case Nil
      with h have "match_here r prev (x # xs)" by simp
      then show ?thesis by simp
    next
      case (Cons y ws')
      with h have "y = x" "xs = ws' @ rest" "is_space x" "\<forall>c \<in> set ws'. is_space c" "match_here r (prev_after (Some x) ws') rest"
        by auto
      then have "match_here (SpaceStar # r) (Some x) xs"
        using Cons.IH by blast
      with \<open>is_space x\<close> show ?thesis by simp
    qed
  qed
qed

lemma search_from_iff:
  "search_from p prev s = (\<exists>x y. s = x @ y \<and> match_alts p (prev_after prev x) y)"
proof (induction s arbitrary: prev)
  case Nil
  show ?case by simp
next
  case (Cons c s)
  show ?case
  proof
    assume "search_from p prev (c # s)"
    then consider "match_alts p prev (c # s)" | "search_from p (Some c) s" by auto
    then show "\<exists>x y. c # s = x @ y \<and> match_alts p (prev_after prev x) y"
    proof cases
      case 1
      then have "c # s = [] @ (c # s) \<and> match_alts p (prev_after prev []) (c # s)" by simp
      then show ?thesis by blast
    next
      case 2
      then obtain x y where "s = x @ y" "match_alts p (prev_after (Some c) x) y"
        using Cons.IH by blast
      then have "c # s = (c # x) @ y \<and> match_alts p (prev_after prev (c # x)) y" by simp
      then show ?thesis by blast
    qed
  next
    assume "\<exists>x y. c # s = x @ y \<and> match_alts p (prev_after prev x) y"
    then obtain x y where h: "c # s = x @ y" "match_alts p (prev_after prev x) y" by blast
    show "search_from p prev (c # s)"
    proof (cases x)
      case Nil
      with h have "match_alts p prev (c # s)" by simp
      then show ?thesis by simp
    next
      case (Cons d x')
      with h have "s = x' @ y" "match_alts p (prev_after (Some c) x') y" by auto
      then have "search_from p (Some c) s" using Cons.IH by blast
      then show ?thesis by simp
    qed
  qed
qed

lemma search_commercial_invoice:
  "search pat_commercial_invoice s = has_commercial_invoice s"
proof -
  have "search pat_commercial_invoice s =
      (\<exists>x y. s = x @ y \<and> match_here (lits ''commercial'' @ SpaceStar # lits ''invoice'' @ []) (prev_after None x) y)"
    by (simp add: search_def search_from_iff pat_commercial_invoice_def match_alts_def)
  also have "\<dots> = (\<exists>x y. s = x @ y \<and> (\<exists>u r1. y = u @ r1 \<and> lower u = ''commercial'' \<and>
        (\<exists>ws r2. r1 = ws @ r2 \<and> (\<forall>c \<in> set ws. is_space c) \<and>
          (\<exists>v r3. r2 = v @ r3 \<and> lower v = ''invoice''))))"
    unfolding match_here_lits match_here_space_star by simp
  also have "\<dots> = has_commercial_invoice s"
    unfolding has_commercial_invoice_def by blast
  finally show ?thesis .
qed

lemma scan_no_match:
  "\<forall>a \<in> set atts. pat_matches pat a = Inr False \<Longrightarrow> scan pat i atts = Inr None"
  by (induction atts arbitrary: i) simp_all

lemma scan_first_match:
  assumes "\<forall>b \<in> set pre. pat_matches pat b = Inr False" and "pat_matches pat a = Inr True"
  shows "scan pat i (pre @ a # post) = Inr (Some (i + length pre, a))"
  using assms by (induction pre arbitrary: i) simp_all

lemma scan_Some_position:
  "scan pat i atts = Inr (Some (j, a)) \<Longrightarrow> i \<le> j \<and> j < i + length atts \<and> atts ! (j - i) = a"
proof (induction atts arbitrary: i)
  case Nil
  then show ?case by simp
next
  case (Cons b atts)
  show ?case
  proof (cases "pat_matches pat b")
    case (Inl e)
    with Cons.prems show ?thesis by simp
  next
    case (Inr m)
    show ?thesis
    proof (cases m)
      case True
      with Inr Cons.prems show ?thesis by simp
    next
      case False
      with Inr Cons.prems have "scan pat (Suc i) atts = Inr (Some (j, a))" by simp
      then have "Suc i \<le> j \<and> j < Suc i + length atts \<and> atts ! (j - Suc i) = a"
        by (rule Cons.IH)
      then have "j - i = Suc (j - Suc i)" "i \<le> j" "j < i + length (b # atts)" "atts ! (j - Suc i) = a"
        by auto
      then show ?thesis by simp
    qed
  qed
qed

lemma pat_matches_str_named:
  "str_named a \<Longrightarrow> \<exists>m. pat_matches pat a = Inr m"
  by (auto simp: str_named_def pat_matches_def split: pyval.splits)

lemma scan_str_named:
  "\<forall>a \<in> set atts. str_named a \<Longrightarrow> \<exists>r. scan pat i atts = Inr r"
proof (induction atts arbitrary: i)
  case Nil
  show ?case by simp
next
  case (Cons b atts)
  then obtain m where "pat_matches pat b = Inr m"
    using pat_matches_str_named by fastforce
  moreover from Cons obtain r where "scan pat (Suc i) atts = Inr r" by fastforce
  ultimately show ?case by (cases m) simp_all
qed

lemma try_patterns_str_named:
  "\<forall>a \<in> set atts. str_named a \<Longrightarrow> \<exists>r. try_patterns pats atts = Inr r"
proof (induction pats)
  case Nil
  show ?case by simp
next
  case (Cons p pats)
  obtain r where "scan p 1 atts = Inr r"
    using scan_str_named [OF Cons.prems] by blast
  with Cons show ?case by (cases r) auto
qed

lemma try_patterns_Some_position:
  "try_patterns pats atts = Inr (Some (j, a)) \<Longrightarrow> 1 \<le> j \<and> j \<le> length atts \<and> atts ! (j - 1) = a"
proof (induction pats)
  case Nil
  then show ?case by simp
next
  case (Cons p pats)
  show ?case
  proof (cases "scan p 1 atts")
    case (Inl e)
    with Cons.prems show ?thesis by simp
  next
    case (Inr r)
    show ?thesis
    proof (cases r)
      case None
      with Inr Cons show ?thesis by simp
    next
      case (Some q)
      with Inr Cons.prems have "scan p 1 atts = Inr (Some (j, a))" by simp
      from scan_Some_position [OF this] show ?thesis by auto
    qed
  qed
qed

lemma try_patterns_no_match:
  "\<forall>p \<in> set pats. \<forall>a \<in> set atts. pat_matches p a = Inr False \<Longrightarrow> try_patterns pats atts = Inr None"
  by (induction pats) (simp_all add: scan_no_match)

lemma try_patterns_priority:
  assumes "\<forall>q \<in> set ps1. \<forall>b \<in> set (pre @ a # post). pat_matches q b = Inr False"
    and "\<forall>b \<in> set pre. pat_matches p b = Inr False"
    and "pat_matches p a = Inr True"
  shows "try_patterns (ps1 @ p # ps2) (pre @ a # post) = Inr (Some (Suc (length pre), a))"
  using assms
proof (induction ps1)
  case Nil
  then show ?case by (simp add: scan_first_match)
next
  case (Cons q ps1)
  then have "scan q 1 (pre @ a # post) = Inr None"
    by (intro scan_no_match) simp
  with Cons show ?case by simp
qed

lemma choose_of_try_Some:
  "try_patterns patterns atts = Inr (Some r) \<Longrightarrow> choose_invoice_attachment atts = Inr (Some r)"
  by (simp add: choose_invoice_attachment_def)


text \<open>
  Claim C1. When some candidate's name (file name, else title) contains "commercial
  invoice" in any case and with any whitespace between the two words, and no earlier
  candidate matches that pattern, \<open>choose_invoice_attachment\<close> returns the 1-based
  position of that candidate together with the candidate, whatever the other candidates
  match and wherever it stands. More generally the patterns are tried in their listed
  order and each pattern scans the candidates in input order: if no candidate matches
  any pattern before \<open>p\<close>, the result is the first candidate that matches \<open>p\<close>.
  "Matches" and "does not match" are the results \<open>Inr True\<close> and \<open>Inr False\<close> of
  \<open>pat.search\<close> on the candidate's name.
\<close>

theorem choose_commercial_invoice_first:
  "(candidate_name a = PStr s \<and> has_commercial_invoice s
      \<and> (\<forall>b \<in> set pre. pat_matches pat_commercial_invoice b = Inr False)
    \<longrightarrow> choose_invoice_attachment (pre @ a # post) = Inr (Some (Suc (length pre), a)))
   \<and> (patterns = earlier @ p # later
      \<and> (\<forall>q \<in> set earlier. \<forall>b \<in> set (pre @ a # post). pat_matches q b = Inr False)
      \<and> (\<forall>b \<in> set pre. pat_matches p b = Inr False)
      \<and> pat_matches p a = Inr True
    \<longrightarrow> choose_invoice_attachment (pre @ a # post) = Inr (Some (Suc (length pre), a)))"
proof (intro conjI impI)
  assume h: "candidate_name a = PStr s \<and> has_commercial_invoice s
      \<and> (\<forall>b \<in> set pre. pat_matches pat_commercial_invoice b = Inr False)"
  then have "pat_matches pat_commercial_invoice a = Inr True"
    by (simp add: pat_matches_def search_commercial_invoice)
  with h have "try_patterns ([] @ pat_commercial_invoice # [pat_invoice, pat_proforma, pat_pi]) (pre @ a # post)
      = Inr (Some (Suc (length pre), a))"
    by (intro try_patterns_priority) simp_all
  then show "choose_invoice_attachment (pre @ a # post) = Inr (Some (Suc (length pre), a))"
    by (intro choose_of_try_Some) (simp add: patterns_def)
next
  assume h: "patterns = earlier @ p # later
      \<and> (\<forall>q \<in> set earlier. \<forall>b \<in> set (pre @ a # post). pat_matches q b = Inr False)
      \<and> (\<forall>b \<in> set pre. pat_matches p b = Inr False)
      \<and> pat_matches p a = Inr True"
  then have "try_patterns (earlier @ p # later) (pre @ a # post) = Inr (Some (Suc (length pre), a))"
    by (intro try_patterns_priority) simp_all
  with h show "choose_invoice_attachment (pre @ a # post) = Inr (Some (Suc (length pre), a))"
    by (intro choose_of_try_Some) simp
qed

text \<open>
  The theorem at work: a commercial invoice in second place, behind a candidate that
  matches the lower-priority pattern "invoice"; and a list without a commercial invoice,
  where the second pattern decides.
\<close>

theorem choose_commercial_invoice_first_witness:
  "candidate_name [(''filename'', PStr ''Commercial  INVOICE 7.pdf'')] = PStr ''Commercial  INVOICE 7.pdf''
   \<and> has_commercial_invoice ''Commercial  INVOICE 7.pdf''
   \<and> pat_matches pat_commercial_invoice [(''filename'', PStr ''invoice 1.pdf'')] = Inr False
   \<and> choose_invoice_attachment
        ([[(''filename'', PStr ''invoice 1.pdf'')]] @ [(''filename'', PStr ''Commercial  INVOICE 7.pdf'')]
           # [[(''title'', PStr ''pi.pdf'')]])
      = Inr (Some (2, [(''filename'', PStr ''Commercial  INVOICE 7.pdf'')]))
   \<and> patterns = [pat_commercial_invoice] @ pat_invoice # [pat_proforma, pat_pi]
   \<and> pat_matches pat_commercial_invoice [(''filename'', PStr ''pi.pdf'')] = Inr False
   \<and> pat_matches pat_commercial_invoice [(''title'', PStr ''Invoice 3.pdf'')] = Inr False
   \<and> pat_matches pat_invoice [(''filename'', PStr ''pi.pdf'')] = Inr False
   \<and> pat_matches pat_invoice [(''title'', PStr ''Invoice 3.pdf'')] = Inr True
   \<and> choose_invoice_attachment ([[(''filename'', PStr ''pi.pdf'')]] @ [(''title'', PStr ''Invoice 3.pdf'')] # [])
      = Inr (Some (2, [(''title'', PStr ''Invoice 3.pdf'')]))"
proof -
  let ?ci = "[(''filename'', PStr ''Commercial  INVOICE 7.pdf'')]"
  let ?inv = "[(''filename'', PStr ''invoice 1.pdf'')]"
  let ?pi = "[(''filename'', PStr ''pi.pdf'')]"
  let ?t = "[(''title'', PStr ''Invoice 3.pdf'')]"
  have a1: "candidate_name ?ci = PStr ''Commercial  INVOICE 7.pdf''"
    by code_simp
  have "search pat_commercial_invoice ''Commercial  INVOICE 7.pdf''"
    by code_simp
  then have a2: "has_commercial_invoice ''Commercial  INVOICE 7.pdf''"
    by (simp only: search_commercial_invoice)
  have a3': "pat_matches pat_commercial_invoice ?inv = Inr False"
    by code_simp
  then have a3: "\<forall>b \<in> set [?inv]. pat_matches pat_commercial_invoice b = Inr False"
    by simp
  have b1: "patterns = [pat_commercial_invoice] @ pat_invoice # [pat_proforma, pat_pi]"
    by (simp add: patterns_def)
  have b2': "pat_matches pat_commercial_invoice ?pi = Inr False"
    "pat_matches pat_commercial_invoice ?t = Inr False"
    by code_simp+
  then have b2: "\<forall>q \<in> set [pat_commercial_invoice]. \<forall>b \<in> set ([?pi] @ ?t # []). pat_matches q b = Inr False"
    by simp
  have b3': "pat_matches pat_invoice ?pi = Inr False"
    by code_simp
  then have b3: "\<forall>b \<in> set [?pi]. pat_matches pat_invoice b = Inr False"
    by simp
  have b4: "pat_matches pat_invoice ?t = Inr True"
    by code_simp
  have c1: "choose_invoice_attachment ([?inv] @ ?ci # [[(''title'', PStr ''pi.pdf'')]])
      = Inr (Some (Suc (length [?inv]), ?ci))"
    using choose_commercial_invoice_first
      [where a = ?ci and s = "''Commercial  INVOICE 7.pdf''" and pre = "[?inv]"
         and post = "[[(''title'', PStr ''pi.pdf'')]]"] a1 a2 a3
    by blast
  have c2: "choose_invoice_attachment ([?pi] @ ?t # []) = Inr (Some (Suc (length [?pi]), ?t))"
    using choose_commercial_invoice_first
      [where earlier = "[pat_commercial_invoice]" and p = pat_invoice and later = "[pat_proforma, pat_pi]"
         and pre = "[?pi]" and a = ?t and post = "[]"] b1 b2 b3 b4
    by blast
  from a1 a2 a3' b1 b2' b3' b4 c1 c2 show ?thesis by simp
qed

text \<open>
  Claim C5. When none of the four patterns matches any candidate, the selector returns
  position 1 with the first candidate if there is one, and \<open>None\<close> (no selection) for
  the empty list.
\<close>

theorem choose_fallback_first:
  assumes "\<forall>p \<in> set patterns. \<forall>a \<in> set atts. pat_matches p a = Inr False"
  shows "choose_invoice_attachment atts = (case atts of [] \<Rightarrow> Inr None | a # _ \<Rightarrow> Inr (Some (1, a)))"
  using try_patterns_no_match [OF assms] by (simp add: choose_invoice_attachment_def)

theorem choose_fallback_first_witness:
  "list_all (\<lambda>p. list_all (\<lambda>a. pat_matches p a = Inr False)
       [[(''filename'', PStr ''logo.png'')], [(''title'', PStr ''pizza menu'')]]) patterns
   \<and> choose_invoice_attachment [[(''filename'', PStr ''logo.png'')], [(''title'', PStr ''pizza menu'')]]
      = Inr (Some (1, [(''filename'', PStr ''logo.png'')]))
   \<and> choose_invoice_attachment [] = Inr None"
proof -
  let ?atts = "[[(''filename'', PStr ''logo.png'')], [(''title'', PStr ''pizza menu'')]]"
  have h': "list_all (\<lambda>p. list_all (\<lambda>a. pat_matches p a = Inr False) ?atts) patterns"
    by code_simp
  then have h: "\<forall>p \<in> set patterns. \<forall>a \<in> set ?atts. pat_matches p a = Inr False"
    by (simp add: list_all_iff)
  have e: "\<forall>p \<in> set patterns. \<forall>a \<in> set ([] :: pydict list). pat_matches p a = Inr False"
    by simp
  from choose_fallback_first [OF h] choose_fallback_first [OF e] h' show ?thesis by simp
qed

text \<open>
  Claim C10, as stated, fails: a dictionary whose \<open>"filename"\<close> is not a string (here the
  integer 5) makes \<open>pat.search\<close> raise \<open>TypeError\<close>.
\<close>

theorem choose_raises_on_non_string_name:
  "choose_invoice_attachment [[(''filename'', PInt 5)]] = Inl (Raise TypeError None)"
  by code_simp

text \<open>
  Claim C10, amended. For every list of dictionary candidates whose names are strings
  (a candidate without \<open>"filename"\<close> and \<open>"title"\<close> is one of them: its name is the
  empty text) the selector does not raise. For every list of dictionary candidates, a
  returned pair \<open>(i, c)\<close> has \<open>1 \<le> i \<le> length atts\<close> with \<open>c\<close> the \<open>i\<close>-th element,
  and \<open>None\<close> is returned only for the empty list.
\<close>

theorem choose_position_invariant:
  "((\<forall>a \<in> set atts. str_named a) \<longrightarrow> (\<exists>r. choose_invoice_attachment atts = Inr r))
   \<and> (map_of a ''filename'' = None \<and> map_of a ''title'' = None \<longrightarrow> str_named a)
   \<and> (choose_invoice_attachment atts = Inr (Some (i, c)) \<longrightarrow> 1 \<le> i \<and> i \<le> length atts \<and> atts ! (i - 1) = c)
   \<and> (choose_invoice_attachment atts = Inr None \<longrightarrow> atts = [])"
proof -
  have p1: "\<exists>r. choose_invoice_attachment atts = Inr r" if h1: "\<forall>a \<in> set atts. str_named a"
  proof -
    obtain r where "try_patterns patterns atts = Inr r"
      using try_patterns_str_named [OF h1] by blast
    then show ?thesis
      by (cases r; cases atts) (simp_all add: choose_invoice_attachment_def)
  qed
  have p2: "str_named a" if "map_of a ''filename'' = None \<and> map_of a ''title'' = None"
    using that by (simp add: str_named_def candidate_name_def dict_get_def py_or_def)
  have p3: "1 \<le> i \<and> i \<le> length atts \<and> atts ! (i - 1) = c"
    if h: "choose_invoice_attachment atts = Inr (Some (i, c))"
  proof (cases "try_patterns patterns atts")
    case (Inl e)
    with h show ?thesis by (simp add: choose_invoice_attachment_def)
  next
    case (Inr r)
    show ?thesis
    proof (cases r)
      case None
      with Inr h show ?thesis
        by (cases atts) (simp_all add: choose_invoice_attachment_def)
    next
      case (Some q)
      with Inr h have "try_patterns patterns atts = Inr (Some (i, c))"
        by (simp add: choose_invoice_attachment_def)
      then show ?thesis by (rule try_patterns_Some_position)
    qed
  qed
  have p4: "atts = []" if "choose_invoice_attachment atts = Inr None"
    using that
    by (cases atts) (auto simp: choose_invoice_attachment_def split: sum.splits option.splits)
  from p1 p2 p3 p4 show ?thesis by blast
qed

theorem choose_position_invariant_witness:
  "list_all str_named [[(''size'', PInt 3)], [(''title'', PStr ''Invoice.pdf'')]]
   \<and> map_of [(''size'', PInt 3)] ''filename'' = None \<and> map_of [(''size'', PInt 3)] ''title'' = None
   \<and> choose_invoice_attachment [[(''size'', PInt 3)], [(''title'', PStr ''Invoice.pdf'')]]
      = Inr (Some (2, [(''title'', PStr ''Invoice.pdf'')]))
   \<and> (1::nat) \<le> 2 \<and> 2 \<le> length [[(''size'', PInt 3)], [(''title'', PStr ''Invoice.pdf'')]]
   \<and> [[(''size'', PInt 3)], [(''title'', PStr ''Invoice.pdf'')]] ! (2 - 1) = [(''title'', PStr ''Invoice.pdf'')]
   \<and> choose_invoice_attachment [] = Inr None"
proof -
  let ?atts = "[[(''size'', PInt 3)], [(''title'', PStr ''Invoice.pdf'')]]"
  have h1': "list_all str_named ?atts"
    by code_simp
  then have h1: "\<forall>a \<in> set ?atts. str_named a"
    by (simp add: list_all_iff)
  have h2: "map_of [(''size'', PInt 3)] ''filename'' = None \<and> map_of [(''size'', PInt 3)] ''title'' = None"
    by simp
  have h3: "choose_invoice_attachment ?atts = Inr (Some (2, [(''title'', PStr ''Invoice.pdf'')]))"
    by code_simp
  have h4: "choose_invoice_attachment [] = Inr None"
    by code_simp
  from choose_position_invariant
    [where atts = ?atts and a = "[(''size'', PInt 3)]" and i = 2 and c = "[(''title'', PStr ''Invoice.pdf'')]"] h1 h2 h3
  have "(1::nat) \<le> 2 \<and> 2 \<le> length ?atts \<and> ?atts ! (2 - 1) = [(''title'', PStr ''Invoice.pdf'')]"
    by blast
  with h1' h2 h3 h4 show ?thesis by blast
qed

section \<open>Properties of the Gmail wrapper\<close>

lemma attachment_refs_member:
  "attachment_refs mid subj rcv as = Inr rs \<Longrightarrow> a \<in> set as
     \<Longrightarrow> \<exists>r \<in> set rs. attachment_ref mid subj rcv a = Inr r"
proof (induction as arbitrary: rs)
  case Nil
  then show ?case by simp
next
  case (Cons b as)
  from Cons.prems(1) obtain r rs' where
    b: "attachment_ref mid subj rcv b = Inr r" and
    rest: "attachment_refs mid subj rcv as = Inr rs'" and rs: "rs = r # rs'"
    by (auto split: sum.splits)
  show ?case
  proof (cases "a = b")
    case True
    with b rs show ?thesis by simp
  next
    case False
    with Cons.prems(2) have "a \<in> set as" by simp
    from Cons.IH [OF rest this] rs show ?thesis by auto
  qed
qed

lemma normalize_messages_member:
  "normalize_messages ms = Inr out \<Longrightarrow> m \<in> set ms
     \<Longrightarrow> \<exists>rs. message_refs m = Inr rs \<and> set rs \<subseteq> set out"
proof (induction ms arbitrary: out)
  case Nil
  then show ?case by simp
next
  case (Cons b ms)
  from Cons.prems(1) obtain rs out' where
    b: "message_refs b = Inr rs" and
    rest: "normalize_messages ms = Inr out'" and out: "out = rs @ out'"
    by (auto split: sum.splits)
  show ?case
  proof (cases "m = b")
    case True
    with b out show ?thesis by auto
  next
    case False
    with Cons.prems(2) have "m \<in> set ms" by simp
    from Cons.IH [OF rest this] out show ?thesis by auto
  qed
qed

lemma attachment_ref_falsy_size:
  assumes "\<not> truthy (dict_get d ''size'')"
  shows "\<exists>r. attachment_ref mid subj rcv (PDict d) = Inr r \<and> size_bytes r = 0"
  using assms by (simp add: attachment_ref_def py_or_def py_int_def)

text \<open>
  Claim C2, as stated, fails: a non-numeric, non-empty size (here the string "abc") makes
  \<open>int(a.get("size") or 0)\<close> raise \<open>ValueError\<close>, and the whole listing call raises.
\<close>

theorem list_invoice_attachments_raises_on_non_numeric_size:
  "list_invoice_attachments [''GMAIL_AUTHORIZATION'' \<mapsto> ''token'']
     (\<lambda>token q max_results mime_types.
        Inr (PList [PDict [(''messageId'', PStr ''m1''),
                           (''attachments'', PList [PDict [(''attachmentId'', PStr ''a1''),
                                                           (''size'', PStr ''abc'')]])]]))
     ''in:inbox'' 14
   = Inl (Raise ValueError None)"
  by code_simp

text \<open>
  Claim C2, amended. For an attachment record whose size is missing, \<open>None\<close> or
  otherwise falsy, the reference built for it has \<open>size_bytes = 0\<close> and the coercion
  does not raise; an integer size is kept; a truthy size that \<open>int\<close> rejects makes the
  construction raise that error. In a listing call that returns, every attachment with
  a missing or falsy size is among the returned references with \<open>size_bytes = 0\<close>.
\<close>

theorem size_bytes_coercion:
  "(\<not> truthy (dict_get d ''size'')
      \<longrightarrow> (\<exists>r. attachment_ref mid subj rcv (PDict d) = Inr r \<and> size_bytes r = 0))
   \<and> (dict_get d ''size'' = PInt n
      \<longrightarrow> (\<exists>r. attachment_ref mid subj rcv (PDict d) = Inr r \<and> size_bytes r = n))
   \<and> (truthy (dict_get d ''size'') \<and> py_int (dict_get d ''size'') = Inl e
      \<longrightarrow> attachment_ref mid subj rcv (PDict d) = Inl e)
   \<and> (list_invoice_attachments env list_impl query lookback_days = Inr refs
        \<and> require_env env ''GMAIL_AUTHORIZATION'' = Inr token
        \<and> list_impl token (append_lookback_to_query query lookback_days) 50 PNone = Inr (PList ms)
        \<and> PDict dm \<in> set ms \<and> dict_get dm ''attachments'' = PList as
        \<and> PDict d \<in> set as \<and> \<not> truthy (dict_get d ''size'')
      \<longrightarrow> (\<exists>r \<in> set refs. size_bytes r = 0
             \<and> attachment_id r = py_str (py_or (dict_get d ''attachmentId'') (PStr []))))"
proof -
  have p1: "\<exists>r. attachment_ref mid subj rcv (PDict d) = Inr r \<and> size_bytes r = 0"
    if "\<not> truthy (dict_get d ''size'')"
    using that by (rule attachment_ref_falsy_size)
  have p2: "\<exists>r. attachment_ref mid subj rcv (PDict d) = Inr r \<and> size_bytes r = n"
    if "dict_get d ''size'' = PInt n"
    using that by (simp add: attachment_ref_def py_or_def py_int_def)
  have p3: "attachment_ref mid subj rcv (PDict d) = Inl e"
    if "truthy (dict_get d ''size'') \<and> py_int (dict_get d ''size'') = Inl e"
    using that by (simp add: attachment_ref_def py_or_def)
  have p4: "\<exists>r \<in> set refs. size_bytes r = 0
             \<and> attachment_id r = py_str (py_or (dict_get d ''attachmentId'') (PStr []))"
    if h: "list_invoice_attachments env list_impl query lookback_days = Inr refs
        \<and> require_env env ''GMAIL_AUTHORIZATION'' = Inr token
        \<and> list_impl token (append_lookback_to_query query lookback_days) 50 PNone = Inr (PList ms)
        \<and> PDict dm \<in> set ms \<and> dict_get dm ''attachments'' = PList as
        \<and> PDict d \<in> set as \<and> \<not> truthy (dict_get d ''size'')"
  proof -
    from h have r0: "list_invoice_attachments env list_impl query lookback_days = Inr refs"
      and e0: "require_env env ''GMAIL_AUTHORIZATION'' = Inr token"
      and l0: "list_impl token (append_lookback_to_query query lookback_days) 50 PNone = Inr (PList ms)"
      by simp_all
    from r0 have n: "normalize_messages ms = Inr refs"
      by (simp add: list_invoice_attachments_def e0 l0 py_iter_def Let_def)
    from h have "PDict dm \<in> set ms" by simp
    from normalize_messages_member [OF n this] obtain rs where
      rs: "message_refs (PDict dm) = Inr rs" "set rs \<subseteq> set refs" by blast
    let ?mid = "py_str (py_or (dict_get dm ''messageId'') (PStr []))"
    let ?subj = "py_str (py_or (dict_get dm ''subject'') (PStr []))"
    let ?rcv = "ms_to_iso8601 (dict_get dm ''internalDate'')"
    from h have "py_iter (py_or (dict_get dm ''attachments'') (PList [])) = Inr as"
      by (cases as) (simp_all add: py_or_def py_iter_def)
    with rs(1) have ar: "attachment_refs ?mid ?subj ?rcv as = Inr rs"
      by (simp add: message_refs_def)
    from h have "PDict d \<in> set as" by simp
    from attachment_refs_member [OF ar this] obtain r where
      r: "r \<in> set rs" "attachment_ref ?mid ?subj ?rcv (PDict d) = Inr r" by blast
    from h have "\<not> truthy (dict_get d ''size'')" by simp
    with r(2) have "size_bytes r = 0 \<and> attachment_id r = py_str (py_or (dict_get d ''attachmentId'') (PStr []))"
      by (auto simp: attachment_ref_def py_or_def py_int_def)
    with r(1) rs(2) show ?thesis by blast
  qed
  from p1 p2 p3 p4 show ?thesis by blast
qed

theorem size_bytes_coercion_witness:
  "\<not> truthy (dict_get [(''attachmentId'', PStr ''a2'')] ''size'')
   \<and> (\<exists>r. attachment_ref ''m1'' ''Invoice ABC'' [] (PDict [(''attachmentId'', PStr ''a2'')]) = Inr r
          \<and> size_bytes r = 0)
   \<and> dict_get [(''size'', PInt 1234)] ''size'' = PInt 1234
   \<and> (\<exists>r. attachment_ref ''m1'' ''Invoice ABC'' [] (PDict [(''size'', PInt 1234)]) = Inr r
          \<and> size_bytes r = 1234)
   \<and> truthy (dict_get [(''size'', PList [PInt 1])] ''size'')
   \<and> py_int (dict_get [(''size'', PList [PInt 1])] ''size'') = Inl (Raise TypeError None)
   \<and> attachment_ref ''m1'' ''Invoice ABC'' [] (PDict [(''size'', PList [PInt 1])]) = Inl (Raise TypeError None)
   \<and> (\<exists>r \<in> set [\<lparr>message_id = ''m1'', attachment_id = ''a1'', filename = ''inv.pdf'',
                     mime_type = ''application/pdf'', size_bytes = 1234, thread_id = [],
                     subject = ''Invoice ABC'', from_address = [], received_at = ''2024-09-04T19:31:34Z''\<rparr>,
                    \<lparr>message_id = ''m1'', attachment_id = ''a2'', filename = ''image.png'',
                     mime_type = ''image/png'', size_bytes = 0, thread_id = [],
                     subject = ''Invoice ABC'', from_address = [], received_at = ''2024-09-04T19:31:34Z''\<rparr>].
          size_bytes r = 0
          \<and> attachment_id r = py_str (py_or (dict_get [(''attachmentId'', PStr ''a2''), (''filename'', PStr ''image.png''),
                                                         (''mimeType'', PStr ''image/png'')] ''attachmentId'') (PStr [])))"
proof -
  let ?a1 = "[(''attachmentId'', PStr ''a1''), (''filename'', PStr ''inv.pdf''),
              (''mimeType'', PStr ''application/pdf''), (''size'', PInt 1234)]"
  let ?a2 = "[(''attachmentId'', PStr ''a2''), (''filename'', PStr ''image.png''),
              (''mimeType'', PStr ''image/png'')]"
  let ?as = "[PDict ?a1, PDict ?a2]"
  let ?dm = "[(''messageId'', PStr ''m1''), (''subject'', PStr ''Invoice ABC''),
              (''internalDate'', PStr ''1725478294000''), (''attachments'', PList ?as)]"
  let ?env = "[''GMAIL_AUTHORIZATION'' \<mapsto> ''token'']"
  let ?impl = "\<lambda>(token::string) (q::string) (max_results::int) (mime_types::pyval).
                 (Inr (PList [PDict ?dm]) :: pyerr + pyval)"
  let ?refs = "[\<lparr>message_id = ''m1'', attachment_id = ''a1'', filename = ''inv.pdf'',
                  mime_type = ''application/pdf'', size_bytes = 1234, thread_id = [],
                  subject = ''Invoice ABC'', from_address = [], received_at = ''2024-09-04T19:31:34Z''\<rparr>,
                \<lparr>message_id = ''m1'', attachment_id = ''a2'', filename = ''image.png'',
                  mime_type = ''image/png'', size_bytes = 0, thread_id = [],
                  subject = ''Invoice ABC'', from_address = [], received_at = ''2024-09-04T19:31:34Z''\<rparr>]"
  have a: "\<not> truthy (dict_get [(''attachmentId'', PStr ''a2'')] ''size'')"
    by code_simp
  have b: "dict_get [(''size'', PInt 1234)] ''size'' = PInt 1234"
    by code_simp
  have c: "truthy (dict_get [(''size'', PList [PInt 1])] ''size'')"
    "py_int (dict_get [(''size'', PList [PInt 1])] ''size'') = Inl (Raise TypeError None)"
    by code_simp+
  have d1: "list_invoice_attachments ?env ?impl ''in:inbox'' 14 = Inr ?refs"
    by code_simp
  have d2: "require_env ?env ''GMAIL_AUTHORIZATION'' = Inr ''token''"
    by code_simp
  have d3: "?impl ''token'' (append_lookback_to_query ''in:inbox'' 14) 50 PNone = Inr (PList [PDict ?dm])"
    by simp
  have d4: "PDict ?dm \<in> set [PDict ?dm]" "PDict ?a2 \<in> set ?as"
    by simp_all
  have d5: "dict_get ?dm ''attachments'' = PList ?as"
    by code_simp
  have d6: "\<not> truthy (dict_get ?a2 ''size'')"
    by code_simp
  note t1 = size_bytes_coercion [where d = "[(''attachmentId'', PStr ''a2'')]" and mid = "''m1''"
      and subj = "''Invoice ABC''" and rcv = "[]"]
  note t2 = size_bytes_coercion [where d = "[(''size'', PInt 1234)]" and n = 1234 and mid = "''m1''"
      and subj = "''Invoice ABC''" and rcv = "[]"]
  note t3 = size_bytes_coercion [where d = "[(''size'', PList [PInt 1])]" and e = "Raise TypeError None"
      and mid = "''m1''" and subj = "''Invoice ABC''" and rcv = "[]"]
  note t4 = size_bytes_coercion [where d = ?a2 and env = ?env and list_impl = ?impl
      and query = "''in:inbox''" and lookback_days = 14 and refs = ?refs and token = "''token''"
      and ms = "[PDict ?dm]" and dm = ?dm and as = ?as]
  have r1: "\<exists>r. attachment_ref ''m1'' ''Invoice ABC'' [] (PDict [(''attachmentId'', PStr ''a2'')]) = Inr r
          \<and> size_bytes r = 0"
    using t1 a by blast
  have r2: "\<exists>r. attachment_ref ''m1'' ''Invoice ABC'' [] (PDict [(''size'', PInt 1234)]) = Inr r
          \<and> size_bytes r = 1234"
    using t2 b by blast
  have r3: "attachment_ref ''m1'' ''Invoice ABC'' [] (PDict [(''size'', PList [PInt 1])]) = Inl (Raise TypeError None)"
    using t3 c by blast
  have r4: "\<exists>r \<in> set ?refs. size_bytes r = 0
          \<and> attachment_id r = py_str (py_or (dict_get ?a2 ''attachmentId'') (PStr []))"
    using t4 d1 d2 d3 d4 d5 d6 by blast
  show ?thesis by (intro conjI; fact)
qed

text \<open>
  Claim C3. The claim is what the function's own documentation promises (\<open>ValueError\<close>
  "if input bytes are empty or not a PDF header"), but the code does not do it: the
  \<open>ValueError\<close> for a wrong header is raised inside the \<open>try\<close> block and caught by its
  \<open>except Exception: pass\<close>. A non-empty payload that starts with "GIF89a" goes on to
  the configuration lookup and the HTTP request, and the call returns a report.
\<close>

theorem upload_accepts_non_pdf_payload:
  "upload_pdf_to_planner [''PLANNER_API_BASE'' \<mapsto> ''http://planner.local'']
     (\<lambda>req. PostResponse \<lparr>status_code = 200, resp_text = Some ''{}'', json = JsonReturns (PDict [])\<rparr>)
     (Bytes [0x47, 0x49, 0x46, 0x38, 0x39, 0x61]) PNone
   = (Inr \<lparr>created_order_ids = PList [], warnings = PList [], errors = PList [],
           source_message_id = PStr [], report_notes = PStr []\<rparr>,
      [EnvLookup ''PLANNER_API_BASE'', EnvLookup ''PLANNER_API_KEY'',
       HttpPost (planner_request ''http://planner.local'' [] [0x47, 0x49, 0x46, 0x38, 0x39, 0x61])])"
  by code_simp

text \<open>
  Claim C7, as stated, fails twice: a field that is the single string \<open>""\<close> yields the
  empty sequence, not the one-element sequence holding that string; and a field that is
  neither a string nor a sequence (here the number 5) is returned as it is, so the
  report's field is not a sequence.
\<close>

theorem adapt_report_empty_string_and_number:
  "adapt_report (PDict [(''warnings'', PStr [])]) PNone
     = Inr \<lparr>created_order_ids = PList [], warnings = PList [], errors = PList [],
             source_message_id = PStr [], report_notes = PStr []\<rparr>
   \<and> adapt_report (PDict [(''errors'', PInt 5)]) PNone
     = Inr \<lparr>created_order_ids = PList [], warnings = PList [], errors = PInt 5,
             source_message_id = PStr [], report_notes = PStr []\<rparr>"
  by code_simp

text \<open>
  Claim C7, amended. For every response object, \<open>warnings\<close> and \<open>errors\<close> of the report
  are each the normalisation of the field of the same name alone: a field that is
  absent, \<open>None\<close> or otherwise empty yields the empty sequence, a non-empty string yields
  the one-element sequence holding it, a sequence is used as it is. Hence both are
  sequences whenever the upstream fields are absent, strings or sequences.
\<close>

theorem warnings_errors_normalized:
  "\<exists>rep. adapt_report (PDict d) smid = Inr rep
     \<and> warnings rep = normalized_seq (dict_get d ''warnings'')
     \<and> errors rep = normalized_seq (dict_get d ''errors'')
     \<and> (\<not> truthy w \<longrightarrow> normalized_seq w = PList [])
     \<and> (s \<noteq> [] \<longrightarrow> normalized_seq (PStr s) = PList [PStr s])
     \<and> normalized_seq (PList xs) = PList xs
     \<and> (w = PNone \<or> is_str w \<or> is_list w \<longrightarrow> is_list (normalized_seq w))"
  by (cases w; cases xs)
     (auto simp: adapt_report_def normalized_seq_def py_or_def is_str_def is_list_def Let_def
           split: pyval.splits)

theorem warnings_errors_normalized_witness:
  "\<exists>rep. adapt_report (PDict [(''created_order_ids'', PList [PStr ''123'']), (''warnings'', PStr ''minor''),
                             (''errors'', PList []), (''notes'', PStr ''ok'')]) (PStr ''m1'') = Inr rep
     \<and> warnings rep = PList [PStr ''minor''] \<and> errors rep = PList []
     \<and> \<not> truthy PNone \<and> normalized_seq PNone = PList []
     \<and> ''minor'' \<noteq> [] \<and> normalized_seq (PStr ''minor'') = PList [PStr ''minor'']
     \<and> is_str (PStr ''minor'') \<and> is_list (normalized_seq (PStr ''minor''))"
proof -
  let ?d = "[(''created_order_ids'', PList [PStr ''123'']), (''warnings'', PStr ''minor''),
             (''errors'', PList []), (''notes'', PStr ''ok'')]"
  have w: "normalized_seq (dict_get ?d ''warnings'') = PList [PStr ''minor'']"
    "normalized_seq (dict_get ?d ''errors'') = PList []"
    by code_simp+
  have h: "\<not> truthy PNone" "''minor'' \<noteq> []" "is_str (PStr ''minor'')"
    by code_simp+
  note t1 = warnings_errors_normalized [where d = ?d and smid = "PStr ''m1''" and w = PNone and s = "''minor''" and xs = "[]"]
  note t2 = warnings_errors_normalized [where d = ?d and smid = "PStr ''m1''" and w = "PStr ''minor''" and s = "''minor''" and xs = "[]"]
  from t1 obtain rep where r: "adapt_report (PDict ?d) (PStr ''m1'') = Inr rep"
    "warnings rep = normalized_seq (dict_get ?d ''warnings'')"
    "errors rep = normalized_seq (dict_get ?d ''errors'')"
    "\<not> truthy PNone \<longrightarrow> normalized_seq PNone = PList []"
    "''minor'' \<noteq> [] \<longrightarrow> normalized_seq (PStr ''minor'') = PList [PStr ''minor'']"
    by blast
  from t2 have l: "PStr ''minor'' = PNone \<or> is_str (PStr ''minor'') \<or> is_list (PStr ''minor'')
      \<longrightarrow> is_list (normalized_seq (PStr ''minor''))"
    by blast
  from r w have r': "warnings rep = PList [PStr ''minor'']" "errors rep = PList []"
    by simp_all
  from r h have n: "normalized_seq PNone = PList []" "normalized_seq (PStr ''minor'') = PList [PStr ''minor'']"
    by simp_all
  from l h have i: "is_list (normalized_seq (PStr ''minor''))"
    by simp
  show ?thesis
    by (rule exI [of _ rep]) (intro conjI; fact)
qed

text \<open>
  Claim C8. Whenever the upload request has been sent (payload non-empty, base URL
  configured) and the response's status code is outside 200 to 299, the call fails with
  a \<open>RuntimeError\<close> whose message is "Planner upload failed: HTTP ", the status code
  in decimal, ": " and the first 200 characters of the response body (the whole body
  when it is shorter, nothing when there is none).
\<close>

theorem upload_non_2xx_fails:
  assumes "bs \<noteq> []"
    and "require_env env ''PLANNER_API_BASE'' = Inr val"
    and "post (planner_request (rstrip_slash val)
                 (case env ''PLANNER_API_KEY'' of None \<Rightarrow> [] | Some k \<Rightarrow> k) bs) = PostResponse resp"
    and "status_code resp < 200 \<or> 300 \<le> status_code resp"
  shows "fst (upload_pdf_to_planner env post (Bytes bs) smid)
           = Inl (Raise RuntimeError
                   (Some (''Planner upload failed: HTTP '' @ str_int (status_code resp) @ '': ''
                          @ take 200 (case resp_text resp of None \<Rightarrow> [] | Some t \<Rightarrow> t))))
         \<and> length (take 200 (case resp_text resp of None \<Rightarrow> [] | Some t \<Rightarrow> t)) \<le> 200"
  using assms by (auto simp: upload_pdf_to_planner_def Let_def)

theorem upload_non_2xx_fails_witness:
  "[0x25, 0x50, 0x44, 0x46, 0x2D :: 8 word] \<noteq> []
   \<and> require_env [''PLANNER_API_BASE'' \<mapsto> ''http://planner.local'', ''PLANNER_API_KEY'' \<mapsto> ''testkey'']
         ''PLANNER_API_BASE'' = Inr ''http://planner.local''
   \<and> status_code \<lparr>status_code = 400, resp_text = Some ''Bad request: invalid PDF'', json = JsonRaises\<rparr> \<ge> 300
   \<and> fst (upload_pdf_to_planner
             [''PLANNER_API_BASE'' \<mapsto> ''http://planner.local'', ''PLANNER_API_KEY'' \<mapsto> ''testkey'']
             (\<lambda>req. PostResponse \<lparr>status_code = 400, resp_text = Some ''Bad request: invalid PDF'', json = JsonRaises\<rparr>)
             (Bytes [0x25, 0x50, 0x44, 0x46, 0x2D]) PNone)
       = Inl (Raise RuntimeError (Some ''Planner upload failed: HTTP 400: Bad request: invalid PDF''))"
proof -
  let ?env = "[''PLANNER_API_BASE'' \<mapsto> ''http://planner.local'', ''PLANNER_API_KEY'' \<mapsto> ''testkey'']"
  let ?resp = "\<lparr>status_code = 400, resp_text = Some ''Bad request: invalid PDF'', json = JsonRaises\<rparr>"
  let ?bs = "[0x25, 0x50, 0x44, 0x46, 0x2D :: 8 word]"
  have h1: "?bs \<noteq> []"
    by simp
  have h2: "require_env ?env ''PLANNER_API_BASE'' = Inr ''http://planner.local''"
    by code_simp
  have h3: "(\<lambda>req. PostResponse ?resp)
              (planner_request (rstrip_slash ''http://planner.local'')
                 (case ?env ''PLANNER_API_KEY'' of None \<Rightarrow> [] | Some k \<Rightarrow> k) ?bs) = PostResponse ?resp"
    by simp
  have h4: "status_code ?resp \<ge> 300"
    by simp
  then have h4': "status_code ?resp < 200 \<or> 300 \<le> status_code ?resp"
    by simp
  have m: "''Planner upload failed: HTTP '' @ str_int (status_code ?resp) @ '': ''
             @ take 200 (case resp_text ?resp of None \<Rightarrow> [] | Some t \<Rightarrow> t)
           = ''Planner upload failed: HTTP 400: Bad request: invalid PDF''"
    by code_simp
  from upload_non_2xx_fails [OF h1 h2 h3 h4', of PNone]
  have r: "fst (upload_pdf_to_planner ?env (\<lambda>req. PostResponse ?resp) (Bytes ?bs) PNone)
          = Inl (Raise RuntimeError (Some ''Planner upload failed: HTTP 400: Bad request: invalid PDF''))"
    by (simp only: m)
  show ?thesis
    by (intro conjI; fact)
qed

text \<open>
  Claim C9. When the message identifier is missing under both \<open>message_id\<close> and
  \<open>messageId\<close>, or the attachment identifier is missing under both \<open>attachment_id\<close>
  and \<open>attachmentId\<close> (missing, \<open>None\<close> or empty), \<open>download_attachment\<close> fails with
  the \<open>ValueError\<close> of the validation and has made no call to the download helper or to
  the file system. When each identifier is present under either spelling, the first
  thing the function does is to call the download helper with the two identifiers.
\<close>

theorem download_requires_identifiers:
  "(\<not> truthy (py_or (dict_get d ''message_id'') (dict_get d ''messageId''))
      \<or> \<not> truthy (py_or (dict_get d ''attachment_id'') (dict_get d ''attachmentId''))
    \<longrightarrow> download_attachment gmail_download read_file (PDict d)
          = (Inl (Raise ValueError (Some missing_ids_message)), []))
   \<and> (truthy (py_or (dict_get d ''message_id'') (dict_get d ''messageId''))
      \<and> truthy (py_or (dict_get d ''attachment_id'') (dict_get d ''attachmentId''))
    \<longrightarrow> (\<exists>name rest. snd (download_attachment gmail_download read_file (PDict d))
          = DownloadCall (py_str (py_or (dict_get d ''message_id'') (dict_get d ''messageId'')))
              (py_str (py_or (dict_get d ''attachment_id'') (dict_get d ''attachmentId''))) name # rest))"
  by (auto simp: download_attachment_def Let_def split: sum.splits)

theorem download_requires_identifiers_witness:
  "\<not> truthy (py_or (dict_get [(''message_id'', PStr ''m1''), (''filename'', PStr ''inv.pdf'')] ''attachment_id'')
                  (dict_get [(''message_id'', PStr ''m1''), (''filename'', PStr ''inv.pdf'')] ''attachmentId''))
   \<and> download_attachment (\<lambda>m a n. Inr ''/tmp/inv.pdf'') (\<lambda>p. Inr [0x25, 0x50, 0x44, 0x46])
         (PDict [(''message_id'', PStr ''m1''), (''filename'', PStr ''inv.pdf'')])
       = (Inl (Raise ValueError (Some missing_ids_message)), [])
   \<and> truthy (py_or (dict_get [(''messageId'', PStr ''m1''), (''attachmentId'', PStr ''a1'')] ''message_id'')
                 (dict_get [(''messageId'', PStr ''m1''), (''attachmentId'', PStr ''a1'')] ''messageId''))
   \<and> truthy (py_or (dict_get [(''messageId'', PStr ''m1''), (''attachmentId'', PStr ''a1'')] ''attachment_id'')
                 (dict_get [(''messageId'', PStr ''m1''), (''attachmentId'', PStr ''a1'')] ''attachmentId''))
   \<and> download_attachment (\<lambda>m a n. Inr ''/tmp/inv.pdf'') (\<lambda>p. Inr [0x25, 0x50, 0x44, 0x46])
         (PDict [(''messageId'', PStr ''m1''), (''attachmentId'', PStr ''a1'')])
       = (Inr [0x25, 0x50, 0x44, 0x46],
          [DownloadCall ''m1'' ''a1'' (PStr ''gmail_a1''), FileRead ''/tmp/inv.pdf'', FileRemove ''/tmp/inv.pdf''])"
proof -
  let ?d = "[(''message_id'', PStr ''m1''), (''filename'', PStr ''inv.pdf'')]"
  let ?c = "[(''messageId'', PStr ''m1''), (''attachmentId'', PStr ''a1'')]"
  let ?dl = "\<lambda>(m::string) (a::string) (n::pyval). (Inr ''/tmp/inv.pdf'' :: pyerr + string)"
  let ?rd = "\<lambda>p::string. (Inr [0x25, 0x50, 0x44, 0x46] :: string + bytes)"
  have h1: "\<not> truthy (py_or (dict_get ?d ''attachment_id'') (dict_get ?d ''attachmentId''))"
    by code_simp
  have h2: "truthy (py_or (dict_get ?c ''message_id'') (dict_get ?c ''messageId''))"
    "truthy (py_or (dict_get ?c ''attachment_id'') (dict_get ?c ''attachmentId''))"
    by code_simp+
  have r1: "download_attachment ?dl ?rd (PDict ?d) = (Inl (Raise ValueError (Some missing_ids_message)), [])"
    using download_requires_identifiers [where d = ?d and gmail_download = ?dl and read_file = ?rd] h1
    by blast
  have r2: "download_attachment ?dl ?rd (PDict ?c)
       = (Inr [0x25, 0x50, 0x44, 0x46],
          [DownloadCall ''m1'' ''a1'' (PStr ''gmail_a1''), FileRead ''/tmp/inv.pdf'', FileRemove ''/tmp/inv.pdf''])"
    by code_simp
  show ?thesis
    by (intro conjI; fact)
qed

end
